theory Spec2Isabelle
  imports Main
begin

section \<open>Text: characters, lines and separators\<close>

text \<open>
  Python strings are modelled as \<^typ>\<open>string\<close>; the characters that matter to the module
  (digits, comma, asterisk, newline, the tag characters) are ASCII.
\<close>

definition newline :: char where
  "newline = CHR 0x0A"

definition comma :: char where
  "comma = CHR '',''"

definition is_digit :: "char \<Rightarrow> bool" where
  "is_digit c = (c \<in> set ''0123456789'')"

text \<open>\<^verbatim>\<open>s.split(d)\<close>: the pieces of \<open>s\<close> between the occurrences of \<open>d\<close>; never empty.\<close>

fun split_on :: "'a \<Rightarrow> 'a list \<Rightarrow> 'a list list" where
  "split_on d [] = [[]]"
| "split_on d (c # cs) =
     (if c = d then [] # split_on d cs
      else (case split_on d cs of [] \<Rightarrow> [[c]] | l # ls \<Rightarrow> (c # l) # ls))"

text \<open>\<^verbatim>\<open>d.join(ls)\<close>.\<close>

fun join_on :: "'a \<Rightarrow> 'a list list \<Rightarrow> 'a list" where
  "join_on d [] = []"
| "join_on d [l] = l"
| "join_on d (l # ls) = l @ d # join_on d ls"

section \<open>Text Sanitizer: \<open>blank_filter\<close>\<close>

text \<open>
  \<^verbatim>\<open>re.sub(r'^\d+,+$', '', text, flags=re.MULTILINE)\<close>.

  \<open>match_blank s\<close> tries the pattern body \<^verbatim>\<open>\d+,+$\<close> at the head of \<open>s\<close> and returns what
  follows the match: one or more digits, one or more commas (both greedy; the two
  character classes are disjoint, so backtracking finds nothing more), then \<^verbatim>\<open>$\<close>, which
  in MULTILINE mode holds at the end of the text and just before a newline.
\<close>

definition match_blank :: "string \<Rightarrow> string option" where
  "match_blank s =
     (let r1 = dropWhile is_digit s; r2 = dropWhile (\<lambda>c. c = comma) r1
      in if takeWhile is_digit s \<noteq> [] \<and> takeWhile (\<lambda>c. c = comma) r1 \<noteq> []
            \<and> (case r2 of [] \<Rightarrow> True | c # _ \<Rightarrow> c = newline)
         then Some r2 else None)"

lemma match_blank_shorter: "match_blank s = Some r \<Longrightarrow> length r < length s"
proof -
  assume m: "match_blank s = Some r"
  then have d: "takeWhile is_digit s \<noteq> []"
    and r: "r = dropWhile (\<lambda>c. c = comma) (dropWhile is_digit s)"
    by (auto simp: match_blank_def Let_def split: if_splits)
  have "length r \<le> length (dropWhile is_digit s)"
    unfolding r by (rule length_dropWhile_le)
  moreover have "length (dropWhile is_digit s) < length s"
    using d by (cases s) (auto simp: le_imp_less_Suc length_dropWhile_le split: if_splits)
  ultimately show ?thesis by simp
qed

text \<open>
  The substitution scans the text from left to right. \<open>bol\<close> says that the position is
  one where \<^verbatim>\<open>^\<close> holds (the start of the text, or just after a newline). A match is
  replaced by the empty string and the scan goes on behind it; elsewhere the character is
  copied.
\<close>

function re_sub_blank :: "bool \<Rightarrow> string \<Rightarrow> string" where
  "re_sub_blank bol [] = []"
| "re_sub_blank bol (c # cs) =
     (case (if bol then match_blank (c # cs) else None) of
        Some r \<Rightarrow> re_sub_blank False r
      | None \<Rightarrow> c # re_sub_blank (c = newline) cs)"
  by pat_completeness auto
termination
  by (relation "measure (\<lambda>(bol, s). length s)")
     (auto split: if_splits dest: match_blank_shorter)

definition blank_filter :: "string \<Rightarrow> string" where
  "blank_filter text = re_sub_blank True text"

text \<open>
  The line-wise reading of the pattern: a line made of one or more digits followed by one
  or more commas and nothing else.
\<close>

definition blank_entry :: "string \<Rightarrow> bool" where
  "blank_entry l =
     (takeWhile is_digit l \<noteq> [] \<and> takeWhile (\<lambda>c. c = comma) (dropWhile is_digit l) \<noteq> []
      \<and> dropWhile (\<lambda>c. c = comma) (dropWhile is_digit l) = [])"

definition blank_line :: "string \<Rightarrow> string" where
  "blank_line l = (if blank_entry l then [] else l)"

section \<open>Tables\<close>

text \<open>
  A cell of a DataFrame is a \<^typ>\<open>string option\<close>: \<open>None\<close> is pandas' missing value (NaN).
  Numbers are kept as text; floating-point values are not interpreted.

  A row of the inductee table \<^verbatim>\<open>self.fame\<close> has its row label and the two columns of
  \<^verbatim>\<open>fame_types\<close>. The labels are integers: \<^verbatim>\<open>pd.DataFrame\<close> numbers the rows 0, 1, 2, ... in
  \<^verbatim>\<open>scrape_hall_of_fame\<close>, and the read of the cached CSV takes them from the first column
  of the file (\<^verbatim>\<open>index_col=0\<close>), where they need be neither ascending nor distinct.
\<close>

type_synonym cell = "string option"

record inductee =
  label :: int
  name :: cell
  category :: cell

text \<open>
  A row of \<^verbatim>\<open>self.players\<close> or \<^verbatim>\<open>self.stats\<close>: the index label (the cell of \<^verbatim>\<open>index_col\<close>),
  the \<^verbatim>\<open>player\<close> column, and the remaining columns in schema order.
\<close>

record row =
  key :: cell
  player :: cell
  others :: "cell list"

record statistics =
  fame :: "inductee list"
  players :: "row list"
  players_fame :: "row list"
  stats :: "row list"
  stats_fame :: "row list"

text \<open>The two-column DataFrame that \<^verbatim>\<open>missing_hall_of_fame\<close> returns.\<close>

record report =
  columns :: "string list"
  entries :: "(cell \<times> cell) list"

datatype error =
    HTTPError
  | URLError
  | RequestException
  | AttributeError
  | ParserError
  | ValueError
  | TypeError
  | NotModelled

text \<open>
  \<^item> \<open>HTTPError\<close>: \<^verbatim>\<open>urllib.error.HTTPError\<close> from the read of the cached CSV;
  \<^item> \<open>URLError\<close>: any other failure of that read, which \<^verbatim>\<open>__init__\<close> does not catch;
  \<^item> \<open>RequestException\<close>: \<^verbatim>\<open>requests.get\<close> fails in the scrape;
  \<^item> \<open>AttributeError\<close>: \<^verbatim>\<open>soup.find\<close> returns None and \<^verbatim>\<open>section.find_all\<close> is called on it;
  \<^item> \<open>ParserError\<close>, \<open>ValueError\<close>, \<open>TypeError\<close>: what \<^verbatim>\<open>read_csv\<close> raises on a file that it
    cannot read against the schema; \<open>ValueError\<close> is also what pandas raises when it has
    to reindex a Series whose labels repeat;
  \<^item> \<open>NotModelled\<close> is no exception of the program: the reader of the worked examples
    below returns it on the texts for which it does not say what pandas does.
\<close>

datatype dtype = D_int | D_float | D_str | D_category

definition fame_types :: "(string \<times> dtype) list" where
  "fame_types = [(''name'', D_str), (''category'', D_category)]"

definition players_types :: "(string \<times> dtype) list" where
  "players_types =
     [(''idx'', D_int), (''player'', D_str), (''height'', D_float), (''weight'', D_float),
      (''collage'', D_category), (''born'', D_str), (''birth_city'', D_str),
      (''birth_state'', D_category)]"

definition stats_types :: "(string \<times> dtype) list" where
  "stats_types =
     [(''idx'', D_int), (''season'', D_str), (''player'', D_str), (''position'', D_category),
      (''age'', D_float), (''team'', D_category), (''games'', D_int),
      (''games_started'', D_float), (''minutes_played'', D_float),
      (''efficiency_rating'', D_float), (''true_shooting_pct'', D_float),
      (''3_point_average_attempts'', D_float), (''ftr'', D_float),
      (''offensive_rebound_pct'', D_float), (''defensive_rebound_pct'', D_float),
      (''total_rebound_pct'', D_float), (''assist_pct'', D_float), (''steal_pct'', D_float),
      (''block_pct'', D_float), (''turnovers_pct'', D_float), (''usage_pct'', D_float),
      (''blank_1'', D_str), (''offensive_win_shares'', D_float),
      (''defensive_win_shares'', D_float), (''win_shares'', D_float),
      (''win_shares_48'', D_float), (''blank_2'', D_str),
      (''offensive_box_plus_minus'', D_float), (''defensive_box_plus_minus'', D_float),
      (''box_plus_minus'', D_float), (''value_over_replacement_player'', D_float),
      (''field_goals'', D_int), (''field_goal_attempts'', D_int), (''field_goal_pct'', D_float),
      (''3_pointers'', D_float), (''3_painters_attempts'', D_float),
      (''3_pointers_pct'', D_float), (''2_pointers'', D_int), (''2_pointers_attempts'', D_int),
      (''2_pointers_pct'', D_float), (''effective_field_goal_pct'', D_float),
      (''free_throws'', D_int), (''free_throw_attempts'', D_int), (''free_throw_pct'', D_float),
      (''offensive_rebounds'', D_float), (''defensive_rebounds'', D_float),
      (''total_rebounds'', D_float), (''assists'', D_float), (''steals'', D_float),
      (''blocks'', D_float), (''turnovers'', D_float), (''fouls'', D_int), (''points'', D_int)]"

section \<open>Source Reader: \<open>pandas.read_csv\<close> is a parameter\<close>

text \<open>
  \<^verbatim>\<open>pandas.read_csv\<close> is a library function and is not modelled: the module's functions
  take it as the parameter \<open>read_csv\<close>, with the arguments that vary between the module's
  two calls: the text, the \<^verbatim>\<open>date_parser\<close>, the schema (\<^verbatim>\<open>names\<close> and \<^verbatim>\<open>dtype\<close>) and
  \<^verbatim>\<open>index_col\<close>, which is also the one column of \<^verbatim>\<open>parse_dates\<close>. (\<^verbatim>\<open>header=None\<close> and
  \<^verbatim>\<open>skiprows=1\<close> are the same in both calls.) It returns the exception it raises, or the
  rows of the DataFrame it builds: one cell per column of the schema, in schema order,
  the cell of \<^verbatim>\<open>index_col\<close> holding the row's index label. Every theorem about loading
  holds for every such function, hence for whatever pandas does with a file: quoted
  fields, line ends, type coercion, the date conversion.
\<close>

type_synonym reader =
  "string \<Rightarrow> (cell list \<Rightarrow> string list) \<Rightarrow> (string \<times> dtype) list \<Rightarrow> nat \<Rightarrow> error + cell list list"

section \<open>Correction Layer: literal replacement\<close>

text \<open>
  \<^verbatim>\<open>Series.str.replace(old, new)\<close> on one string, for the two patterns the module uses
  (\<^verbatim>\<open>'*'\<close> and \<^verbatim>\<open>'Dan Issell'\<close>): both are replaced as literal text, every occurrence, leftmost
  first and without overlap, like \<^verbatim>\<open>str.replace\<close>. A missing value stays missing.
\<close>

function replace_all :: "string \<Rightarrow> string \<Rightarrow> string \<Rightarrow> string" where
  "replace_all old new s =
     (if old = [] then new @ concat (map (\<lambda>c. c # new) s)
      else if s = [] then []
      else if take (length old) s = old
        then new @ replace_all old new (drop (length old) s)
      else hd s # replace_all old new (tl s))"
  by pat_completeness auto
termination
  by (relation "measure (\<lambda>(old, new, s). length s)") auto

declare replace_all.simps [simp del]

definition str_replace :: "string \<Rightarrow> string \<Rightarrow> cell \<Rightarrow> cell" where
  "str_replace old new c = map_option (replace_all old new) c"

section \<open>Loading: \<open>load_data\<close>\<close>

text \<open>
  \<^verbatim>\<open>year_parser\<close>, the function that \<open>load_data\<close> hands to the reader as \<^verbatim>\<open>date_parser\<close>: it
  formats every element of the date column with \<^verbatim>\<open>f'{x}-01-01'\<close>; a missing value prints as
  \<^verbatim>\<open>nan\<close>.
\<close>

definition year_parser :: "cell list \<Rightarrow> string list" where
  "year_parser year = map (\<lambda>x. (case x of None \<Rightarrow> ''nan'' | Some y \<Rightarrow> y) @ ''-01-01'') year"

text \<open>
  The cell at position \<open>i\<close> of a row, and the cell of the column called \<open>c\<close> in a row read
  against the column names \<open>names\<close>. (A row of a DataFrame has a cell for every column.)
\<close>

definition cell_at :: "cell list \<Rightarrow> nat \<Rightarrow> cell" where
  "cell_at r i = (if i < length r then r ! i else None)"

definition column :: "string list \<Rightarrow> string \<Rightarrow> cell list \<Rightarrow> cell" where
  "column names c r = (case map_of (zip names r) c of Some v \<Rightarrow> v | None \<Rightarrow> None)"

text \<open>
  The DataFrame built from the rows that the reader returns: column number \<open>index_col\<close>
  is the index, the columns named in \<open>dropped\<close> are removed (\<^verbatim>\<open>.drop(..., axis=1)\<close>).
\<close>

definition frame_row :: "(string \<times> dtype) list \<Rightarrow> nat \<Rightarrow> string list \<Rightarrow> cell list \<Rightarrow> row" where
  "frame_row types index_col dropped r =
     \<lparr>key = cell_at r index_col,
      player = column (map fst types) ''player'' r,
      others = map snd (filter (\<lambda>(n, c). n \<notin> set dropped \<and> n \<noteq> ''player''
                                  \<and> n \<noteq> fst (types ! index_col))
                         (zip (map fst types) r))\<rparr>"

definition frame :: "(string \<times> dtype) list \<Rightarrow> nat \<Rightarrow> string list \<Rightarrow> cell list list \<Rightarrow> row list" where
  "frame types index_col dropped table = map (frame_row types index_col dropped) table"

text \<open>\<^verbatim>\<open>.dropna(how='all')\<close>: a row goes when every column is missing. The index is no column.\<close>

definition all_missing :: "row \<Rightarrow> bool" where
  "all_missing r = (player r = None \<and> filter (\<lambda>c. c \<noteq> None) (others r) = [])"

definition dropna_all :: "row list \<Rightarrow> row list" where
  "dropna_all df = filter (\<lambda>r. \<not> all_missing r) df"

text \<open>\<^verbatim>\<open>df.player = df.player.str.replace('*', '')\<close>.\<close>

definition strip_marker :: "row list \<Rightarrow> row list" where
  "strip_marker df = map (\<lambda>r. r\<lparr>player := str_replace ''*'' [] (player r)\<rparr>) df"

text \<open>\<^verbatim>\<open>self.fame.query('category == "Player"').name\<close>.\<close>

definition filter_players :: "inductee list \<Rightarrow> cell list" where
  "filter_players df = map name (filter (\<lambda>f. category f = Some ''Player'') df)"

text \<open>\<^verbatim>\<open>df[df.player.isin(values)]\<close>.\<close>

definition isin_player :: "row list \<Rightarrow> cell list \<Rightarrow> row list" where
  "isin_player df values = filter (\<lambda>r. player r \<in> set values) df"

text \<open>
  \<open>load_data\<close> takes the reader, the object with \<open>fame\<close> set, the text of \<^verbatim>\<open>Players.csv\<close>
  and the text that \<^verbatim>\<open>f.read()\<close> returns for \<^verbatim>\<open>Seasons_Stats.csv\<close>; it returns the object
  with the four tables set, or the error of the first read that fails.
\<close>

definition load_data :: "reader \<Rightarrow> statistics \<Rightarrow> string \<Rightarrow> string \<Rightarrow> error + statistics" where
  "load_data read_csv self players_text season_text =
     (case read_csv players_text year_parser players_types 5 of
        Inl e \<Rightarrow> Inl e
      | Inr players_table \<Rightarrow>
          (let players' = strip_marker (dropna_all (frame players_types 5 [''idx''] players_table));
               filtered_text = blank_filter season_text
           in case read_csv filtered_text year_parser stats_types 1 of
                Inl e \<Rightarrow> Inl e
              | Inr stats_table \<Rightarrow>
                  (let stats' = strip_marker
                         (frame stats_types 1 [''blank_1'', ''blank_2'', ''idx''] stats_table)
                   in Inr (self\<lparr>players := players',
                                 stats := stats',
                                 players_fame := isin_player players' (filter_players (fame self)),
                                 stats_fame := isin_player stats' (filter_players (fame self))\<rparr>))))"

section \<open>Fame Resolver and construction\<close>

text \<open>
  \<open>scrape_hall_of_fame\<close> starts from what the library calls of its first lines produce:
  an error (the request fails, or the page has no section \<^verbatim>\<open>nbaArticleContent\<close>), or
  \<open>members\<close>, the list of pairs that \<^verbatim>\<open>re.findall\<close> extracts from the paragraphs.
  The three \<^verbatim>\<open>re.sub\<close> calls on the second component follow.

  A character is a code point below 256. \<open>is_word\<close> is \<^verbatim>\<open>\w\<close> there: the ASCII letters and
  digits, the underscore, and the letters and numeric characters of the upper half.
  \<open>is_space\<close> is \<^verbatim>\<open>\s\<close>: the ASCII white space, the four separators 28 to 31, NEL and the
  no-break space.
\<close>

definition is_word :: "char \<Rightarrow> bool" where
  "is_word c =
     (c \<in> set ''abcdefghijklmnopqrstuvwxyzABCDEFGHIJKLMNOPQRSTUVWXYZ0123456789_''
      \<or> of_char c \<in> set [0xAA, 0xB2, 0xB3, 0xB5, 0xB9, 0xBA, 0xBC, 0xBD, 0xBE :: nat]
      \<or> (0xC0 \<le> (of_char c :: nat) \<and> (of_char c :: nat) \<le> 0xFF
          \<and> (of_char c :: nat) \<noteq> 0xD7 \<and> (of_char c :: nat) \<noteq> 0xF7))"

definition is_space :: "char \<Rightarrow> bool" where
  "is_space c = (c \<in> set [CHR 0x20, CHR 0x09, CHR 0x0A, CHR 0x0B, CHR 0x0C, CHR 0x0D,
                           CHR 0x1C, CHR 0x1D, CHR 0x1E, CHR 0x1F, CHR 0x85, CHR 0xA0])"

text \<open>\<^verbatim>\<open>re.sub(r'</?\w>', '', s)\<close>: a \<^verbatim>\<open><\<close>, an optional \<^verbatim>\<open>/\<close>, one word character, a \<^verbatim>\<open>>\<close>.\<close>

fun re_sub_tag :: "string \<Rightarrow> string" where
  "re_sub_tag [] = []"
| "re_sub_tag (c # cs) =
     (if c = CHR ''<'' then
        (case cs of
           a # b # rest \<Rightarrow>
             if a = CHR ''/'' then
               (case rest of
                  g # rest' \<Rightarrow>
                    if is_word b \<and> g = CHR ''>'' then re_sub_tag rest' else c # re_sub_tag cs
                | [] \<Rightarrow> c # re_sub_tag cs)
             else if is_word a \<and> b = CHR ''>'' then re_sub_tag rest
             else c # re_sub_tag cs
         | _ \<Rightarrow> c # re_sub_tag cs)
      else c # re_sub_tag cs)"

text \<open>\<^verbatim>\<open>re.sub(r'\s', '', s)\<close> and \<^verbatim>\<open>re.sub(r',', '', s)\<close>.\<close>

definition re_sub_space :: "string \<Rightarrow> string" where
  "re_sub_space s = filter (\<lambda>c. \<not> is_space c) s"

definition re_sub_comma :: "string \<Rightarrow> string" where
  "re_sub_comma s = filter (\<lambda>c. c \<noteq> comma) s"

text \<open>\<^verbatim>\<open>pd.DataFrame(remove_commas, columns=['name', 'category'])\<close> labels the rows 0, 1, 2, ...\<close>

definition scrape_hall_of_fame :: "error + (string \<times> string) list \<Rightarrow> error + inductee list" where
  "scrape_hall_of_fame page =
     (case page of
        Inl e \<Rightarrow> Inl e
      | Inr members \<Rightarrow>
          (let remove_tags = map (\<lambda>x. (fst x, re_sub_tag (snd x))) (drop 1 members);
               remove_spaces = map (\<lambda>x. (fst x, re_sub_space (snd x))) remove_tags;
               remove_commas = map (\<lambda>x. (fst x, re_sub_comma (snd x))) remove_spaces
           in Inr (map (\<lambda>(i, x). \<lparr>label = int i, name = Some (fst x), category = Some (snd x)\<rparr>)
                     (enumerate 0 remove_commas))))"

text \<open>\<^verbatim>\<open>self.fame.name = self.fame.name.str.replace('Dan Issell', 'Dan Issel')\<close>.\<close>

definition correct_names :: "inductee list \<Rightarrow> inductee list" where
  "correct_names df = map (\<lambda>x. x\<lparr>name := str_replace ''Dan Issell'' ''Dan Issel'' (name x)\<rparr>) df"

text \<open>
  \<^verbatim>\<open>Statistics.__init__\<close>. \<open>cached_csv\<close> is the outcome of the read of the cached CSV,
  \<open>page\<close> what the scrape would get; the two file texts are those of \<open>load_data\<close>.
  Only \<open>HTTPError\<close> is caught. The attributes start as \<^verbatim>\<open>None\<close>; no table is read before
  it is set, so the empty table stands for it.
\<close>

definition init :: "reader \<Rightarrow> error + inductee list \<Rightarrow> error + (string \<times> string) list \<Rightarrow> string
    \<Rightarrow> string \<Rightarrow> error + statistics" where
  "init read_csv cached_csv page players_text season_text =
     (case (case cached_csv of
              Inr f \<Rightarrow> Inr f
            | Inl e \<Rightarrow> if e = HTTPError then scrape_hall_of_fame page else Inl e) of
        Inl e \<Rightarrow> Inl e
      | Inr f \<Rightarrow>
          load_data read_csv
            \<lparr>fame = correct_names f,
             players = [], players_fame = [], stats = [], stats_fame = []\<rparr>
            players_text season_text)"

section \<open>Join Engine: \<open>missing_hall_of_fame\<close>\<close>

text \<open>
  \<^verbatim>\<open>self.fame[~self.fame.isin(values)]\<close>: \<^verbatim>\<open>DataFrame.isin\<close> tests every cell of the frame, name
  and category alike, and indexing with the negated mask blanks the cells that are in
  \<open>values\<close>. The rows keep their labels.
\<close>

definition where_not_isin :: "inductee list \<Rightarrow> cell list \<Rightarrow> inductee list" where
  "where_not_isin df values =
     map (\<lambda>f. f\<lparr>name := (if name f \<in> set values then None else name f),
                category := (if category f \<in> set values then None else category f)\<rparr>) df"

text \<open>
  \<^verbatim>\<open>.dropna()\<close>, \<^verbatim>\<open>.query('category == "Player"')\<close> and \<^verbatim>\<open>.name\<close>: the last gives a Series, the
  names with their row labels.
\<close>

definition dropna :: "inductee list \<Rightarrow> inductee list" where
  "dropna df = filter (\<lambda>f. name f \<noteq> None \<and> category f \<noteq> None) df"

definition query_player :: "inductee list \<Rightarrow> inductee list" where
  "query_player df = filter (\<lambda>f. category f = Some ''Player'') df"

definition name_column :: "inductee list \<Rightarrow> (int \<times> cell) list" where
  "name_column df = map (\<lambda>f. (label f, name f)) df"

definition missing_from :: "inductee list \<Rightarrow> cell list \<Rightarrow> (int \<times> cell) list" where
  "missing_from df values = name_column (query_player (dropna (where_not_isin df values)))"

text \<open>\<^verbatim>\<open>Series.unique()\<close>: the values in the order of their first occurrence.\<close>

definition unique :: "'a list \<Rightarrow> 'a list" where
  "unique xs = rev (remdups (rev xs))"

text \<open>
  \<^verbatim>\<open>pd.concat([a, b], axis=1, join='outer', ignore_index=True)\<close> aligns the two Series on
  their row labels. No \<^verbatim>\<open>sort\<close> is passed, so the rows of the result are labelled by the
  union of the two indexes in the order pandas builds it unsorted (its default since
  version 1.0):
  \<^item> the labels of \<open>a\<close> as they are, when \<open>b\<close> is empty or has the same labels; the labels of
    \<open>b\<close>, when \<open>a\<close> is empty;
  \<^item> otherwise the labels of \<open>a\<close>, followed by those labels of \<open>b\<close> that \<open>a\<close> does not have;
  \<^item> but when the labels of \<open>b\<close> repeat, each label as often as it occurs in the Series in
    which it occurs more often, in the order of first occurrence.

  Each Series is then brought to these labels. A Series that has them already is taken
  as it is; one whose labels repeat cannot be reindexed (\<open>ValueError\<close>); otherwise the
  value for a label is looked up, and is missing where the Series has no such label.
  \<^verbatim>\<open>ignore_index\<close> numbers the two columns 0 and 1.
\<close>

definition union_index :: "int list \<Rightarrow> int list \<Rightarrow> int list" where
  "union_index la lb =
     (if lb = [] \<or> la = lb then la
      else if la = [] then lb
      else if \<not> distinct lb
        then concat (map (\<lambda>u. replicate (max (count_list la u) (count_list lb u)) u)
                       (unique (la @ lb)))
      else la @ filter (\<lambda>i. i \<notin> set la) lb)"

definition at_label :: "(int \<times> cell) list \<Rightarrow> int \<Rightarrow> cell" where
  "at_label s i = (case map_of s i of Some c \<Rightarrow> c | None \<Rightarrow> None)"

definition reindex :: "(int \<times> cell) list \<Rightarrow> int list \<Rightarrow> error + cell list" where
  "reindex s index =
     (if map fst s = index then Inr (map snd s)
      else if \<not> distinct (map fst s) then Inl ValueError
      else Inr (map (at_label s) index))"

definition concat_axis1 :: "(int \<times> cell) list \<Rightarrow> (int \<times> cell) list
    \<Rightarrow> error + (int \<times> cell \<times> cell) list" where
  "concat_axis1 a b =
     (let index = union_index (map fst a) (map fst b)
      in case reindex a index of
           Inl e \<Rightarrow> Inl e
         | Inr col0 \<Rightarrow>
             (case reindex b index of
                Inl e \<Rightarrow> Inl e
              | Inr col1 \<Rightarrow> Inr (zip index (zip col0 col1))))"

text \<open>
  \<^verbatim>\<open>.rename(columns={0: 'player_dataset', 1: 'stats_dataset'})\<close> names the two columns and
  \<^verbatim>\<open>.reset_index(drop=True)\<close> forgets the row labels.
\<close>

definition reset_index :: "(int \<times> cell \<times> cell) list \<Rightarrow> (cell \<times> cell) list" where
  "reset_index df = map snd df"

definition missing_hall_of_fame :: "statistics \<Rightarrow> error + report" where
  "missing_hall_of_fame self =
     (let no_players = missing_from (fame self) (map player (players_fame self));
          no_stats = missing_from (fame self) (unique (map player (stats self)))
      in case concat_axis1 no_players no_stats of
           Inl e \<Rightarrow> Inl e
         | Inr df \<Rightarrow>
             Inr \<lparr>columns = [''player_dataset'', ''stats_dataset''],
                  entries = reset_index df\<rparr>)"

section \<open>Predicates and worked inputs used in the statements\<close>

text \<open>No player name of the table holds the marker character.\<close>

definition no_marker :: "row list \<Rightarrow> bool" where
  "no_marker df =
     list_all (\<lambda>r. case player r of None \<Rightarrow> True | Some n \<Rightarrow> CHR ''*'' \<notin> set n) df"

text \<open>
  The rows of the inductee table that survive the mask, \<^verbatim>\<open>dropna\<close> and the query in
  \<open>missing_from\<close>: neither the name nor the category is among \<open>values\<close>, the name is
  not missing and the category is \<^verbatim>\<open>Player\<close>.
\<close>

definition reported :: "cell list \<Rightarrow> inductee \<Rightarrow> bool" where
  "reported values f =
     (name f \<noteq> None \<and> name f \<notin> set values \<and> category f = Some ''Player''
      \<and> Some ''Player'' \<notin> set values)"



text \<open>
  The combination of two result sequences as the specification words it: side by side
  from the top, the shorter one padded at its end with missing entries.
\<close>

fun spec_side_by_side :: "cell list \<Rightarrow> cell list \<Rightarrow> (cell \<times> cell) list" where
  "spec_side_by_side [] [] = []"
| "spec_side_by_side (x # xs) [] = (x, None) # spec_side_by_side xs []"
| "spec_side_by_side [] (y # ys) = (None, y) # spec_side_by_side [] ys"
| "spec_side_by_side (x # xs) (y # ys) = (x, y) # spec_side_by_side xs ys"

subsection \<open>A reader for the worked examples\<close>

text \<open>
  The worked examples need a reader to run on. \<open>plain_read_csv\<close> says what pandas returns
  for plain files only, and \<open>NotModelled\<close> for every other text. A text is plain when
  \<^item> it holds no double quote and no carriage return, and has a data line;
  \<^item> every line after the first is empty (pandas skips it) or has exactly one field per
    column of the schema, the fields being the pieces between commas;
  \<^item> a field of an \<^verbatim>\<open>np.int\<close> column is empty or a string of digits, a field of an
    \<^verbatim>\<open>np.float\<close> column is empty or a decimal numeral, with an optional minus sign;
  \<^item> the field of the date column is a year of four digits;
  \<^item> no field is one of the two texts that only some pandas versions read as missing.

  On a plain text the first line is skipped, a field that is one of pandas' NA markers is
  a missing value, a missing value in an \<^verbatim>\<open>np.int\<close> column is a \<open>ValueError\<close>, and the date
  column holds what the \<^verbatim>\<open>date_parser\<close> returns. No theorem about \<open>load_data\<close> or \<open>init\<close>
  depends on this reader: it only supplies the concrete runs.
\<close>

definition na_values :: "string list" where
  "na_values =
     [[], ''#N/A'', ''#N/A N/A'', ''#NA'', ''-1.#IND'', ''-1.#QNAN'', ''-NaN'', ''-nan'',
      ''1.#IND'', ''1.#QNAN'', ''N/A'', ''NA'', ''NULL'', ''NaN'', ''n/a'', ''nan'', ''null'']"

definition na_by_version :: "string list" where
  "na_by_version = [''<NA>'', ''None'']"

definition cell_of :: "string \<Rightarrow> cell" where
  "cell_of s = (if s \<in> set na_values then None else Some s)"

definition is_digits :: "string \<Rightarrow> bool" where
  "is_digits s = (s \<noteq> [] \<and> filter (\<lambda>c. \<not> is_digit c) s = [])"

definition is_decimal :: "string \<Rightarrow> bool" where
  "is_decimal s =
     (let u = (case s of [] \<Rightarrow> [] | c # cs \<Rightarrow> if c = CHR ''-'' then cs else s)
      in filter is_digit u \<noteq> [] \<and> filter (\<lambda>c. \<not> is_digit c \<and> c \<noteq> CHR ''.'') u = []
         \<and> length (filter (\<lambda>c. c = CHR ''.'') u) \<le> 1)"

fun plain_field :: "dtype \<Rightarrow> string \<Rightarrow> bool" where
  "plain_field D_int s = (s \<notin> set na_by_version \<and> (s \<in> set na_values \<or> is_digits s))"
| "plain_field D_float s = (s \<notin> set na_by_version \<and> (s \<in> set na_values \<or> is_decimal s))"
| "plain_field D_str s = (s \<notin> set na_by_version)"
| "plain_field D_category s = (s \<notin> set na_by_version)"

definition is_year :: "string \<Rightarrow> bool" where
  "is_year s = (length s = 4 \<and> is_digits s)"

definition plain_read_csv :: reader where
  "plain_read_csv text date_parser types index_col =
     (let table = map (split_on comma) (filter (\<lambda>l. l \<noteq> []) (drop 1 (split_on newline text)))
      in if CHR 0x22 \<in> set text \<or> CHR 0x0D \<in> set text \<or> table = []
            \<or> \<not> index_col < length types
            \<or> list_ex (\<lambda>r. length r \<noteq> length types) table
            \<or> list_ex (\<lambda>r. list_ex (\<lambda>(t, s). \<not> plain_field t s) (zip (map snd types) r)) table
            \<or> list_ex (\<lambda>r. \<not> is_year (r ! index_col)) table
         then Inl NotModelled
         else if list_ex (\<lambda>r. list_ex (\<lambda>(t, s). t = D_int \<and> s \<in> set na_values)
                     (zip (map snd types) r)) table
         then Inl ValueError
         else Inr (map (\<lambda>(k, r). (map cell_of r)[index_col := Some k])
                     (zip (date_parser (map (\<lambda>r. cell_of (r ! index_col)) table)) table)))"

subsection \<open>Worked inputs\<close>

text \<open>
  A small inductee table and two small files in the layout of \<^verbatim>\<open>Players.csv\<close> and
  \<^verbatim>\<open>Seasons_Stats.csv\<close>: a header line, then data lines; two names carry the marker, the
  last line of the season file is a blank entry.
\<close>

definition example_fame :: "inductee list" where
  "example_fame =
     [\<lparr>label = 0, name = Some ''Bill Russell'', category = Some ''Player''\<rparr>,
      \<lparr>label = 1, name = Some ''Bob Cousy'', category = Some ''Player''\<rparr>,
      \<lparr>label = 2, name = Some ''Red Auerbach'', category = Some ''Coach''\<rparr>]"

definition example_players_text :: string where
  "example_players_text =
     '',Player,height,weight,collage,born,birth_city,birth_state\<newline>0,Bob Cousy,185,79,Holy Cross,1928,New York,New York\<newline>5,LeBron James*,203,113,,1984,Akron,Ohio\<newline>''"

definition example_season_text :: string where
  "example_season_text =
     '',Year,Player\<newline>0,1957,Bill Russell*,C,22,BOS,48,,,,,,,,,,,,,,,,,,,,,,,,,277,649,,,,,277,649,,,152,309,,,,,,,,,143,706\<newline>1,,,,\<newline>''"

definition example_self :: statistics where
  "example_self =
     \<lparr>fame = example_fame, players = [], players_fame = [], stats = [], stats_fame = []\<rparr>"

text \<open>A season file with a player whose name is the text \<^verbatim>\<open>Player\<close>, and no blank entry.\<close>

definition example_season_text_Player :: string where
  "example_season_text_Player =
     '',Year,Player\<newline>0,1957,Bill Russell*,C,22,BOS,48,,,,,,,,,,,,,,,,,,,,,,,,,277,649,,,,,277,649,,,152,309,,,,,,,,,143,706\<newline>1,1950,Player,G,25,NYK,10,,,,,,,,,,,,,,,,,,,,,,,,,30,90,,,,,30,90,,,15,20,,,,,,,,,12,75\<newline>''"

text \<open>The object that construction returns on the worked inputs.\<close>

definition example_loaded :: statistics where
  "example_loaded = projr (init plain_read_csv (Inr example_fame) (Inl RequestException)
       example_players_text example_season_text)"

text \<open>
  Three inductees of category \<^verbatim>\<open>Player\<close>, a biography file that lacks the second of them
  and a season file that lacks all three.
\<close>

definition example_fame_three :: "inductee list" where
  "example_fame_three =
     [\<lparr>label = 0, name = Some ''Bill Russell'', category = Some ''Player''\<rparr>,
      \<lparr>label = 1, name = Some ''Bob Cousy'', category = Some ''Player''\<rparr>,
      \<lparr>label = 2, name = Some ''Wilt Chamberlain'', category = Some ''Player''\<rparr>]"

definition example_players_text_two :: string where
  "example_players_text_two =
     '',Player,height,weight,collage,born,birth_city,birth_state\<newline>0,Bill Russell,208,97,University of San Francisco,1934,Monroe,Louisiana\<newline>1,Wilt Chamberlain,216,124,University of Kansas,1936,Philadelphia,Pennsylvania\<newline>''"

definition example_season_text_other :: string where
  "example_season_text_other =
     '',Year,Player\<newline>0,2004,LeBron James,SF,19,CLE,79,,,,,,,,,,,,,,,,,,,,,,,,,622,1492,,,,,559,1275,,,347,460,,,,,,,,,149,1654\<newline>''"

definition example_loaded_three :: statistics where
  "example_loaded_three = projr (init plain_read_csv (Inr example_fame_three)
       (Inl RequestException) example_players_text_two example_season_text_other)"




section \<open>The sanitizer, line by line\<close>

lemma split_on_not_Nil [simp]: "split_on d t \<noteq> []"
  by (induction t) (auto split: list.splits)

lemma split_on_unfold:
  "split_on d t = takeWhile (\<lambda>c. c \<noteq> d) t #
     (case dropWhile (\<lambda>c. c \<noteq> d) t of [] \<Rightarrow> [] | _ # r \<Rightarrow> split_on d r)"
  by (induction t) (auto split: list.splits)

lemma split_on_no_sep: "l \<in> set (split_on d t) \<Longrightarrow> d \<notin> set l"
  by (induction t arbitrary: l) (auto split: list.splits if_splits)

lemma split_on_single: "d \<notin> set l \<Longrightarrow> split_on d l = [l]"
  by (induction l) auto

lemma split_on_append: "d \<notin> set l \<Longrightarrow> split_on d (l @ d # t) = l # split_on d t"
  by (induction l) auto

lemma split_on_join:
  "ls \<noteq> [] \<Longrightarrow> (\<And>l. l \<in> set ls \<Longrightarrow> d \<notin> set l) \<Longrightarrow> split_on d (join_on d ls) = ls"
proof (induction d ls rule: join_on.induct)
  case (1 d)
  then show ?case by simp
next
  case (2 d l)
  then show ?case by (simp add: split_on_single)
next
  case (3 d l v va)
  then show ?case by (simp add: split_on_append)
qed

lemma join_on_Cons: "ls \<noteq> [] \<Longrightarrow> join_on d (l # ls) = l @ d # join_on d ls"
  by (cases ls) auto

lemma length_split_on: "length (split_on d t) = Suc (count_list t d)"
  by (induction t) (auto split: list.splits)

lemma takeWhile_takeWhile_imp:
  "(\<And>c. D c \<Longrightarrow> P c) \<Longrightarrow> takeWhile D (takeWhile P t) = takeWhile D t"
  by (induction t) auto

lemma dropWhile_takeWhile_imp:
  "(\<And>c. D c \<Longrightarrow> P c) \<Longrightarrow> dropWhile D (takeWhile P t) = takeWhile P (dropWhile D t)"
  by (induction t) auto

lemma dropWhile_dropWhile_imp:
  "(\<And>c. D c \<Longrightarrow> P c) \<Longrightarrow> dropWhile P (dropWhile D t) = dropWhile P t"
  by (induction t) auto

lemma digit_not_newline: "is_digit c \<Longrightarrow> c \<noteq> newline"
  by (auto simp: is_digit_def newline_def)

lemma comma_not_newline: "c = comma \<Longrightarrow> c \<noteq> newline"
  by (simp add: comma_def newline_def)

text \<open>
  The pattern matches at the head of a text exactly when the first line of the text is a
  blank entry, and the match is that whole line.
\<close>

lemma match_blank_line:
  "match_blank t =
     (if blank_entry (takeWhile (\<lambda>c. c \<noteq> newline) t)
      then Some (dropWhile (\<lambda>c. c \<noteq> newline) t) else None)"
proof -
  let ?P = "\<lambda>c. c \<noteq> newline" and ?C = "\<lambda>c. c = comma"
  define r1 where "r1 = dropWhile is_digit t"
  define r2 where "r2 = dropWhile ?C r1"
  have a: "takeWhile is_digit (takeWhile ?P t) = takeWhile is_digit t"
    by (rule takeWhile_takeWhile_imp) (rule digit_not_newline)
  have b: "dropWhile is_digit (takeWhile ?P t) = takeWhile ?P r1"
    unfolding r1_def by (rule dropWhile_takeWhile_imp) (rule digit_not_newline)
  have c: "takeWhile ?C (takeWhile ?P r1) = takeWhile ?C r1"
    by (rule takeWhile_takeWhile_imp) (rule comma_not_newline)
  have d: "dropWhile ?C (takeWhile ?P r1) = takeWhile ?P r2"
    unfolding r2_def by (rule dropWhile_takeWhile_imp) (rule comma_not_newline)
  have e: "dropWhile ?P t = dropWhile ?P r2"
  proof -
    have "dropWhile ?P r2 = dropWhile ?P r1"
      unfolding r2_def by (rule dropWhile_dropWhile_imp) (rule comma_not_newline)
    also have "\<dots> = dropWhile ?P t"
      unfolding r1_def by (rule dropWhile_dropWhile_imp) (rule digit_not_newline)
    finally show ?thesis by simp
  qed
  have f: "(takeWhile ?P r2 = []) = (case r2 of [] \<Rightarrow> True | c # _ \<Rightarrow> c = newline)"
    by (cases r2) auto
  have g: "takeWhile ?P r2 = [] \<Longrightarrow> dropWhile ?P r2 = r2"
    by (cases r2) (auto split: if_splits)
  have be: "blank_entry (takeWhile ?P t) =
      (takeWhile is_digit t \<noteq> [] \<and> takeWhile ?C r1 \<noteq> [] \<and> takeWhile ?P r2 = [])"
    by (simp add: blank_entry_def a b c d)
  show ?thesis
    unfolding be unfolding match_blank_def Let_def r1_def [symmetric] r2_def [symmetric]
    using e f g by auto
qed

lemma re_sub_blank_False:
  "re_sub_blank False t = takeWhile (\<lambda>c. c \<noteq> newline) t @
     (case dropWhile (\<lambda>c. c \<noteq> newline) t of [] \<Rightarrow> [] | _ # r \<Rightarrow> newline # re_sub_blank True r)"
  by (induction t) auto

lemma blank_entry_Nil [simp]: "\<not> blank_entry []"
  by (simp add: blank_entry_def)

lemma re_sub_blank_True:
  "re_sub_blank True t = blank_line (takeWhile (\<lambda>c. c \<noteq> newline) t) @
     (case dropWhile (\<lambda>c. c \<noteq> newline) t of [] \<Rightarrow> [] | _ # r \<Rightarrow> newline # re_sub_blank True r)"
proof (cases t)
  case Nil
  then show ?thesis by (simp add: blank_line_def)
next
  case (Cons c cs)
  show ?thesis
  proof (cases "blank_entry (takeWhile (\<lambda>c. c \<noteq> newline) t)")
    case True
    then have "re_sub_blank True t = re_sub_blank False (dropWhile (\<lambda>c. c \<noteq> newline) t)"
      using Cons by (simp add: match_blank_line [of "c # cs"])
    also have "\<dots> = (case dropWhile (\<lambda>c. c \<noteq> newline) t of [] \<Rightarrow> []
        | _ # r \<Rightarrow> newline # re_sub_blank True r)"
    proof (cases "dropWhile (\<lambda>c. c \<noteq> newline) t")
      case Nil
      then show ?thesis by (simp del: dropWhile_eq_Nil_conv)
    next
      case (Cons x r)
      then have "x = newline" using hd_dropWhile [of "\<lambda>c. c \<noteq> newline" t] by auto
      then show ?thesis using Cons by simp
    qed
    finally show ?thesis using True by (simp add: blank_line_def)
  next
    case False
    then have "re_sub_blank True t = c # re_sub_blank (c = newline) cs"
      using Cons by (simp add: match_blank_line [of "c # cs"])
    then show ?thesis using False Cons
      by (cases "c = newline") (auto simp: blank_line_def re_sub_blank_False)
  qed
qed

text \<open>
  The substitution is the line-wise map: split the text at the newlines, empty every
  blank entry, join again.
\<close>

lemma blank_filter_lines:
  "blank_filter t = join_on newline (map blank_line (split_on newline t))"
proof (induction t rule: length_induct)
  case (1 t)
  show ?case
  proof (cases "dropWhile (\<lambda>c. c \<noteq> newline) t")
    case Nil
    then show ?thesis
      unfolding blank_filter_def
      by (subst re_sub_blank_True, subst split_on_unfold) (simp del: dropWhile_eq_Nil_conv)
  next
    case (Cons x r)
    have "length (dropWhile (\<lambda>c. c \<noteq> newline) t) \<le> length t"
      by (rule length_dropWhile_le)
    then have "length r < length t" using Cons by simp
    then have ih: "blank_filter r = join_on newline (map blank_line (split_on newline r))"
      using 1 by blast
    show ?thesis
      unfolding blank_filter_def
      apply (subst re_sub_blank_True, subst split_on_unfold)
      using ih Cons by (simp add: blank_filter_def join_on_Cons)
  qed
qed

lemma blank_line_idem: "blank_line (blank_line l) = blank_line l"
  by (simp add: blank_line_def)

lemma split_blank_filter:
  "split_on newline (blank_filter t) = map blank_line (split_on newline t)"
  unfolding blank_filter_lines
  by (rule split_on_join) (auto dest!: split_on_no_sep simp: blank_line_def split: if_splits)

text \<open>
  C6. On the text of the scenario the sanitizer returns the text with the two blank
  entries emptied. In general, the lines of the output are the lines of the input in the
  same order, a blank entry (digits, then commas, nothing else) replaced by the empty
  line and every other line as it was.
\<close>

theorem blank_filter_scenario:
  "blank_filter ''1,,,\<newline>John,25,6.5\<newline>2,,\<newline>'' = ''\<newline>John,25,6.5\<newline>\<newline>''
   \<and> split_on newline (blank_filter text)
       = map (\<lambda>l. if blank_entry l then [] else l) (split_on newline text)"
proof
  show "blank_filter ''1,,,\<newline>John,25,6.5\<newline>2,,\<newline>'' = ''\<newline>John,25,6.5\<newline>\<newline>''"
    by (simp add: blank_filter_def match_blank_def is_digit_def comma_def newline_def)
  have "blank_line = (\<lambda>l. if blank_entry l then [] else l)"
    by (rule ext) (simp add: blank_line_def)
  then show "split_on newline (blank_filter text)
      = map (\<lambda>l. if blank_entry l then [] else l) (split_on newline text)"
    using split_blank_filter [of "text"] by simp
qed

text \<open>C7. The sanitizer is idempotent: a second pass changes nothing.\<close>

theorem blank_filter_idempotent: "blank_filter (blank_filter text) = blank_filter text"
proof -
  have "blank_filter (blank_filter text)
      = join_on newline (map blank_line (split_on newline (blank_filter text)))"
    by (rule blank_filter_lines)
  also have "\<dots> = join_on newline (map blank_line (map blank_line (split_on newline text)))"
    by (simp only: split_blank_filter)
  also have "\<dots> = join_on newline (map blank_line (split_on newline text))"
    by (simp add: blank_line_idem o_def)
  also have "\<dots> = blank_filter text"
    by (rule blank_filter_lines [symmetric])
  finally show ?thesis .
qed

text \<open>
  C10. The sanitizer keeps the number of lines: the output has as many newline
  characters as the input, hence as many lines.
\<close>

theorem blank_filter_line_count:
  "count_list (blank_filter text) newline = count_list text newline
   \<and> length (split_on newline (blank_filter text)) = length (split_on newline text)"
proof -
  have l: "length (split_on newline (blank_filter text)) = length (split_on newline text)"
    by (simp add: split_blank_filter)
  then have "Suc (count_list (blank_filter text) newline) = Suc (count_list text newline)"
    by (simp only: length_split_on)
  with l show ?thesis by simp
qed

section \<open>Loading\<close>

lemma load_data_Inr:
  assumes "load_data read_csv self players_text season_text = Inr self'"
  obtains players_table stats_table where
    "read_csv players_text year_parser players_types 5 = Inr players_table"
    "read_csv (blank_filter season_text) year_parser stats_types 1 = Inr stats_table"
    "players self' = strip_marker (dropna_all (frame players_types 5 [''idx''] players_table))"
    "stats self' = strip_marker (frame stats_types 1 [''blank_1'', ''blank_2'', ''idx''] stats_table)"
    "players_fame self' = isin_player (players self') (filter_players (fame self))"
    "stats_fame self' = isin_player (stats self') (filter_players (fame self))"
    "fame self' = fame self"
  using assms unfolding load_data_def Let_def
  by (auto split: sum.splits)


lemma replace_all_single: "replace_all [c] [] s = filter (\<lambda>x. x \<noteq> c) s"
proof (induction s)
  case Nil
  show ?case by (simp add: replace_all.simps [of "[c]" "[]" "[]"])
next
  case (Cons x xs)
  then show ?case by (simp add: replace_all.simps [of "[c]" "[]" "x # xs"])
qed

lemma no_marker_strip_marker: "no_marker (strip_marker df)"
  by (auto simp: no_marker_def strip_marker_def str_replace_def replace_all_single
      list_all_iff split: option.splits)

lemma no_marker_isin_player: "no_marker df \<Longrightarrow> no_marker (isin_player df values)"
  by (simp add: no_marker_def isin_player_def list_all_iff)

lemma example_loads:
  "\<not> isl (load_data plain_read_csv example_self example_players_text example_season_text)"
  by code_simp

text \<open>
  C5. When loading completes, no player name of the biography table, of the stats table
  or of the two filtered tables holds a \<^verbatim>\<open>*\<close>, whatever the reader returned. Nothing writes
  to the tables afterwards: \<open>missing_hall_of_fame\<close> reads the object and returns a new
  table.
\<close>

theorem loaded_names_without_marker:
  assumes "load_data read_csv self players_text season_text = Inr self'"
  shows "no_marker (players self') \<and> no_marker (stats self')
         \<and> no_marker (players_fame self') \<and> no_marker (stats_fame self')"
  using assms by (elim load_data_Inr) (simp add: no_marker_strip_marker no_marker_isin_player)

theorem loaded_names_without_marker_witness:
  "map player (players (projr (load_data plain_read_csv example_self example_players_text
       example_season_text))) = [Some ''Bob Cousy'', Some ''LeBron James'']
   \<and> map player (stats (projr (load_data plain_read_csv example_self example_players_text
       example_season_text))) = [Some ''Bill Russell'']
   \<and> no_marker (players (projr (load_data plain_read_csv example_self example_players_text
       example_season_text)))
   \<and> no_marker (stats (projr (load_data plain_read_csv example_self example_players_text
       example_season_text)))"
proof -
  let ?r = "load_data plain_read_csv example_self example_players_text example_season_text"
  obtain st where e: "?r = Inr st"
    using example_loads by (cases ?r) auto
  have a: "map player (players (projr ?r)) = [Some ''Bob Cousy'', Some ''LeBron James'']"
    by code_simp
  have b: "map player (stats (projr ?r)) = [Some ''Bill Russell'']"
    by code_simp
  from loaded_names_without_marker [OF e] a b show ?thesis
    by (simp add: e)
qed

text \<open>
  C2. Filtering a table to the inductees of category \<^verbatim>\<open>Player\<close> returns rows of that table
  only, and the player name of every returned row is the name of an inductee of that
  category. The two filtered tables that loading stores are this filter applied to the
  biography table and to the stats table.
\<close>

theorem filter_to_fame_subset:
  "set (isin_player df (filter_players S)) \<subseteq> set df
   \<and> (\<forall>r \<in> set (isin_player df (filter_players S)).
         \<exists>f \<in> set S. category f = Some ''Player'' \<and> name f = player r)
   \<and> (load_data read_csv self players_text season_text = Inr self' \<longrightarrow>
        players_fame self' = isin_player (players self') (filter_players (fame self'))
        \<and> stats_fame self' = isin_player (stats self') (filter_players (fame self')))"
proof (intro conjI impI)
  show "set (isin_player df (filter_players S)) \<subseteq> set df"
    by (auto simp: isin_player_def)
  show "\<forall>r \<in> set (isin_player df (filter_players S)).
         \<exists>f \<in> set S. category f = Some ''Player'' \<and> name f = player r"
    by (auto simp: isin_player_def filter_players_def)
next
  assume "load_data read_csv self players_text season_text = Inr self'"
  then show "players_fame self' = isin_player (players self') (filter_players (fame self'))"
    by (elim load_data_Inr) simp
next
  assume "load_data read_csv self players_text season_text = Inr self'"
  then show "stats_fame self' = isin_player (stats self') (filter_players (fame self'))"
    by (elim load_data_Inr) simp
qed

theorem filter_to_fame_subset_witness:
  "map player (players_fame (projr (load_data plain_read_csv example_self example_players_text
       example_season_text))) = [Some ''Bob Cousy'']
   \<and> map player (stats_fame (projr (load_data plain_read_csv example_self example_players_text
       example_season_text))) = [Some ''Bill Russell'']
   \<and> set (players_fame (projr (load_data plain_read_csv example_self example_players_text
       example_season_text)))
     \<subseteq> set (players (projr (load_data plain_read_csv example_self example_players_text
       example_season_text)))
   \<and> filter_players example_fame = [Some ''Bill Russell'', Some ''Bob Cousy'']"
proof -
  let ?r = "load_data plain_read_csv example_self example_players_text example_season_text"
  obtain st where e: "?r = Inr st"
    using example_loads by (cases ?r) auto
  have f: "fame st = example_fame"
    using e by (elim load_data_Inr) (simp add: example_self_def)
  have a: "map player (players_fame (projr ?r)) = [Some ''Bob Cousy'']"
    by code_simp
  have b: "map player (stats_fame (projr ?r)) = [Some ''Bill Russell'']"
    by code_simp
  have c: "filter_players example_fame = [Some ''Bill Russell'', Some ''Bob Cousy'']"
    by code_simp
  from filter_to_fame_subset [of "players st" example_fame plain_read_csv example_self
      example_players_text example_season_text st] e f a b c
  show ?thesis by simp
qed

subsection \<open>Row counts\<close>














section \<open>The report of missing inductees\<close>

lemma missing_from_reported:
  "missing_from df values = map (\<lambda>f. (label f, name f)) (filter (reported values) df)"
  unfolding missing_from_def where_not_isin_def
  by (induction df) (auto simp: name_column_def query_player_def dropna_def reported_def)

lemma missing_from_names:
  "map snd (missing_from df values) = map name (filter (reported values) df)"
  by (simp add: missing_from_reported o_def)

lemma missing_from_labels:
  "map fst (missing_from df values) = map label (filter (reported values) df)"
  by (simp add: missing_from_reported o_def)

lemma missing_from_iff:
  "Some ''Player'' \<notin> set values \<Longrightarrow>
   (Some n \<in> snd ` set (missing_from df values))
   = (Some n \<in> set (filter_players df) \<and> Some n \<notin> set values)"
proof -
  assume p: "Some ''Player'' \<notin> set values"
  have "set (map snd (missing_from df values)) = set (map name (filter (reported values) df))"
    by (simp only: missing_from_names)
  then have "snd ` set (missing_from df values) = name ` {f \<in> set df. reported values f}"
    by simp
  moreover have "(Some n \<in> name ` {f \<in> set df. reported values f})
      = (\<exists>f \<in> set df. name f = Some n \<and> category f = Some ''Player'' \<and> Some n \<notin> set values)"
    using p unfolding reported_def image_iff by (intro iffI; clarsimp) metis+
  moreover have "(Some n \<in> set (filter_players df))
      = (\<exists>f \<in> set df. name f = Some n \<and> category f = Some ''Player'')"
    unfolding filter_players_def by (auto simp: image_iff)
  ultimately show ?thesis by blast
qed

lemma map_of_labels:
  "distinct (map label df) \<Longrightarrow> f \<in> set df \<Longrightarrow>
   map_of (map (\<lambda>f. (label f, h f)) (filter P df)) (label f) = (if P f then Some (h f) else None)"
proof (induction df)
  case Nil
  then show ?case by simp
next
  case (Cons x xs)
  show ?case
  proof (cases "f = x")
    case True
    from Cons.prems(1) have "label x \<notin> label ` set xs" by simp
    then have "map_of (map (\<lambda>f. (label f, h f)) (filter P xs)) (label x) = None"
      by (auto simp: map_of_eq_None_iff image_iff)
    with True show ?thesis by simp
  next
    case False
    with Cons.prems have m: "f \<in> set xs" and d: "distinct (map label xs)"
      and x: "label x \<notin> label ` set xs"
      by auto
    from m x have n: "label f \<noteq> label x"
      by (metis imageI)
    from Cons.IH [OF d m] n show ?thesis by simp
  qed
qed

lemma at_label_missing_from:
  "distinct (map label df) \<Longrightarrow> f \<in> set df \<Longrightarrow>
   at_label (missing_from df values) (label f) = (if reported values f then name f else None)"
  unfolding at_label_def missing_from_reported
  by (simp add: map_of_labels)

lemma union_index_distinct:
  "distinct lb \<Longrightarrow> union_index la lb = la @ filter (\<lambda>i. i \<notin> set la) lb"
  by (auto simp: union_index_def filter_empty_conv)

lemma at_label_own:
  "distinct (map fst s) \<Longrightarrow> map (at_label s) (map fst s) = map snd s"
  by (auto simp: at_label_def)

lemma reindex_distinct:
  "distinct (map fst s) \<Longrightarrow> reindex s index = Inr (map (at_label s) index)"
  using at_label_own [of s] by (auto simp: reindex_def)

lemma concat_axis1_distinct:
  assumes "distinct (map fst a)" and "distinct (map fst b)"
  shows "map_sum id reset_index (concat_axis1 a b)
       = Inr (map (\<lambda>i. (at_label a i, at_label b i))
               (map fst a @ filter (\<lambda>i. i \<notin> set (map fst a)) (map fst b)))"
  using assms
  by (simp add: concat_axis1_def Let_def reindex_distinct union_index_distinct
      reset_index_def zip_map_map map_snd_zip o_def zip_same_conv_map)

lemma label_reported:
  assumes "distinct (map label df)" and "f \<in> set df"
  shows "(label f \<in> label ` {g \<in> set df. P g}) = P f"
  using assms by (auto simp: distinct_map inj_on_def)

lemma new_labels:
  assumes "distinct (map label df)"
  shows "filter (\<lambda>i. i \<notin> set (map label (filter P df))) (map label (filter Q df))
       = map label (filter (\<lambda>f. Q f \<and> \<not> P f) df)"
proof -
  have "filter ((\<lambda>i. i \<notin> set (map label (filter P df))) \<circ> label) (filter Q df)
      = filter (\<lambda>f. \<not> P f) (filter Q df)"
    by (rule filter_cong) (auto simp: label_reported [OF assms])
  then show ?thesis
    by (simp add: filter_map conj_commute)
qed

lemma entries_aligned:
  assumes "distinct (map label df)"
  shows "map_sum id reset_index (concat_axis1 (missing_from df v) (missing_from df w))
       = Inr (map (\<lambda>f. (name f, if reported w f then name f else None)) (filter (reported v) df)
              @ map (\<lambda>f. (None, name f)) (filter (\<lambda>f. reported w f \<and> \<not> reported v f) df))"
proof -
  let ?a = "missing_from df v" and ?b = "missing_from df w"
  have da: "distinct (map fst ?a)" and db: "distinct (map fst ?b)"
    using assms by (simp_all add: missing_from_labels distinct_map_filter)
  have h1: "map_sum id reset_index (concat_axis1 ?a ?b)
      = Inr (map (\<lambda>i. (at_label ?a i, at_label ?b i))
              (map label (filter (reported v) df)
               @ map label (filter (\<lambda>f. reported w f \<and> \<not> reported v f) df)))"
    by (simp only: concat_axis1_distinct [OF da db] missing_from_labels new_labels [OF assms])
  have h2: "map (\<lambda>i. (at_label ?a i, at_label ?b i)) (map label (filter (reported v) df))
      = map (\<lambda>f. (name f, if reported w f then name f else None)) (filter (reported v) df)"
    by (simp add: at_label_missing_from [OF assms])
  have h3: "map (\<lambda>i. (at_label ?a i, at_label ?b i))
        (map label (filter (\<lambda>f. reported w f \<and> \<not> reported v f) df))
      = map (\<lambda>f. (None, name f)) (filter (\<lambda>f. reported w f \<and> \<not> reported v f) df)"
    by (simp add: at_label_missing_from [OF assms])
  show ?thesis
    by (simp only: h1 map_append h2 h3)
qed

lemma missing_hall_of_fame_sum:
  "missing_hall_of_fame self
   = map_sum id (\<lambda>e. \<lparr>columns = [''player_dataset'', ''stats_dataset''], entries = e\<rparr>)
       (map_sum id reset_index
         (concat_axis1 (missing_from (fame self) (map player (players_fame self)))
            (missing_from (fame self) (unique (map player (stats self))))))"
  by (simp add: missing_hall_of_fame_def Let_def split: sum.splits)

text \<open>
  C1, at an input where the claim and the code part. The stats file holds a season of a
  player whose name is the text \<^verbatim>\<open>Player\<close>. Bob Cousy is an inductee of category
  \<^verbatim>\<open>Player\<close> and no row of the stats table carries his name, yet the \<^verbatim>\<open>stats_dataset\<close>
  column of the report does not list him: the mask of \<open>where_not_isin\<close> has blanked every
  category cell equal to a name of the table. (\<open>missing_from_iff\<close> is the claim for the
  tables that hold no such name.)
\<close>

theorem missing_from_stats_player_named_Player:
  "Some ''Bob Cousy'' \<in> set (filter_players (fame (projr (init plain_read_csv
       (Inr example_fame) (Inl RequestException) example_players_text
       example_season_text_Player))))
   \<and> map player (stats (projr (init plain_read_csv (Inr example_fame)
       (Inl RequestException) example_players_text example_season_text_Player)))
     = [Some ''Bill Russell'', Some ''Player'']
   \<and> missing_hall_of_fame (projr (init plain_read_csv (Inr example_fame)
       (Inl RequestException) example_players_text example_season_text_Player))
     = Inr \<lparr>columns = [''player_dataset'', ''stats_dataset''],
            entries = [(Some ''Bill Russell'', None)]\<rparr>"
  by code_simp

text \<open>
  C9, as the claim words it, fails twice on the worked inputs. With one name in each of
  the two result sequences, padding has nothing to add and would give one row; the
  report has two rows, each with one missing entry. With Bob Cousy missing from the
  biography table and all three inductees missing from the stats table, the
  \<^verbatim>\<open>stats_dataset\<close> column starts with Bob Cousy: it does not keep the order of the stats
  result, which lists Bill Russell first.
\<close>

theorem missing_report_not_padded:
  "map snd (missing_from (fame example_loaded) (map player (players_fame example_loaded)))
     = [Some ''Bill Russell'']
   \<and> map snd (missing_from (fame example_loaded) (unique (map player (stats example_loaded))))
     = [Some ''Bob Cousy'']
   \<and> missing_hall_of_fame example_loaded
     = Inr \<lparr>columns = [''player_dataset'', ''stats_dataset''],
            entries = [(Some ''Bill Russell'', None), (None, Some ''Bob Cousy'')]\<rparr>
   \<and> spec_side_by_side [Some ''Bill Russell''] [Some ''Bob Cousy'']
     = [(Some ''Bill Russell'', Some ''Bob Cousy'')]
   \<and> map snd (missing_from (fame example_loaded_three)
        (unique (map player (stats example_loaded_three))))
     = [Some ''Bill Russell'', Some ''Bob Cousy'', Some ''Wilt Chamberlain'']
   \<and> missing_hall_of_fame example_loaded_three
     = Inr \<lparr>columns = [''player_dataset'', ''stats_dataset''],
            entries = [(Some ''Bob Cousy'', Some ''Bob Cousy''), (None, Some ''Bill Russell''),
                       (None, Some ''Wilt Chamberlain'')]\<rparr>"
  by code_simp

text \<open>
  C9, amended. For an inductee table whose row labels are distinct, the report has the
  columns \<^verbatim>\<open>player_dataset\<close> and \<^verbatim>\<open>stats_dataset\<close> in that order, and the two result
  sequences are aligned on the inductee's row, not padded at the end. First come the
  inductees of the biography result, in its order, each with its name under
  \<^verbatim>\<open>player_dataset\<close> and, when the stats result holds it too, under \<^verbatim>\<open>stats_dataset\<close>; then
  the inductees that only the stats result holds, in its order, with a missing entry
  under \<^verbatim>\<open>player_dataset\<close>. So both columns have the same length; the entries of
  \<^verbatim>\<open>player_dataset\<close> that are not missing are the biography result in its order; those of
  \<^verbatim>\<open>stats_dataset\<close> are the names of the stats result, in the order of the rows.
\<close>

theorem missing_report_aligned:
  assumes "distinct (map label (fame self))"
  shows "missing_hall_of_fame self
         = Inr \<lparr>columns = [''player_dataset'', ''stats_dataset''],
                entries =
                  map (\<lambda>f. (name f,
                            if reported (unique (map player (stats self))) f then name f else None))
                    (filter (reported (map player (players_fame self))) (fame self))
                  @ map (\<lambda>f. (None, name f))
                      (filter (\<lambda>f. reported (unique (map player (stats self))) f
                                  \<and> \<not> reported (map player (players_fame self)) f)
                         (fame self))\<rparr>
         \<and> map snd (missing_from (fame self) (map player (players_fame self)))
           = map name (filter (reported (map player (players_fame self))) (fame self))
         \<and> map snd (missing_from (fame self) (unique (map player (stats self))))
           = map name (filter (reported (unique (map player (stats self)))) (fame self))"
  by (simp add: missing_hall_of_fame_sum entries_aligned [OF assms] missing_from_names)

theorem missing_report_aligned_witness:
  "map label (fame example_loaded) = [0, 1, 2]
   \<and> filter (reported (map player (players_fame example_loaded))) (fame example_loaded)
     = [\<lparr>label = 0, name = Some ''Bill Russell'', category = Some ''Player''\<rparr>]
   \<and> missing_hall_of_fame example_loaded
     = Inr \<lparr>columns = [''player_dataset'', ''stats_dataset''],
            entries = [(Some ''Bill Russell'', None), (None, Some ''Bob Cousy'')]\<rparr>"
proof -
  have l: "map label (fame example_loaded) = [0, 1, 2]"
    by code_simp
  then have d: "distinct (map label (fame example_loaded))"
    by simp
  have p: "filter (reported (map player (players_fame example_loaded))) (fame example_loaded)
      = [\<lparr>label = 0, name = Some ''Bill Russell'', category = Some ''Player''\<rparr>]"
    by code_simp
  have q: "filter (\<lambda>f. reported (unique (map player (stats example_loaded))) f
              \<and> \<not> reported (map player (players_fame example_loaded)) f) (fame example_loaded)
      = [\<lparr>label = 1, name = Some ''Bob Cousy'', category = Some ''Player''\<rparr>]"
    by code_simp
  have r: "\<not> reported (unique (map player (stats example_loaded)))
      \<lparr>label = 0, name = Some ''Bill Russell'', category = Some ''Player''\<rparr>"
    by code_simp
  from missing_report_aligned [OF d] have "missing_hall_of_fame example_loaded
     = Inr \<lparr>columns = [''player_dataset'', ''stats_dataset''],
            entries = [(Some ''Bill Russell'', None), (None, Some ''Bob Cousy'')]\<rparr>"
    by (simp add: p q r)
  with l p show ?thesis by simp
qed

section \<open>Construction\<close>












text \<open>
  C3, as the claim words it, fails: with an HTTP error on the cached CSV and no pair
  extracted by the scrape, nothing is raised; the inductee table is empty and the object
  is built from the two files.
\<close>

theorem empty_scrape_constructs:
  "scrape_hall_of_fame (Inr []) = Inr []
   \<and> \<not> isl (init plain_read_csv (Inl HTTPError) (Inr []) example_players_text
             example_season_text)
   \<and> fame (projr (init plain_read_csv (Inl HTTPError) (Inr []) example_players_text
        example_season_text)) = []
   \<and> map player (players (projr (init plain_read_csv (Inl HTTPError) (Inr [])
        example_players_text example_season_text))) = [Some ''Bob Cousy'', Some ''LeBron James'']"
  by code_simp

text \<open>
  C3, amended. If the read of the cached CSV fails with an HTTP error and the scrape
  extracts no pair, or the heading pair only, the resolver raises nothing and returns the
  empty inductee table; construction goes on to load the two files with it, and fails
  exactly when one of the two reads fails.
\<close>

theorem empty_scrape_raises_nothing:
  assumes "length members \<le> 1"
  shows "scrape_hall_of_fame (Inr members) = Inr []
         \<and> init read_csv (Inl HTTPError) (Inr members) players_text season_text
           = load_data read_csv
               \<lparr>fame = [], players = [], players_fame = [], stats = [], stats_fame = []\<rparr>
               players_text season_text
         \<and> isl (init read_csv (Inl HTTPError) (Inr members) players_text season_text)
           = (isl (read_csv players_text year_parser players_types 5)
              \<or> isl (read_csv (blank_filter season_text) year_parser stats_types 1))"
proof -
  have s: "scrape_hall_of_fame (Inr members) = Inr []"
    using assms by (cases members) (auto simp: scrape_hall_of_fame_def Let_def)
  have i: "init read_csv (Inl HTTPError) (Inr members) players_text season_text
      = load_data read_csv
          \<lparr>fame = [], players = [], players_fame = [], stats = [], stats_fame = []\<rparr>
          players_text season_text"
    by (simp add: init_def s correct_names_def)
  have "isl (load_data read_csv
          \<lparr>fame = [], players = [], players_fame = [], stats = [], stats_fame = []\<rparr>
          players_text season_text)
      = (isl (read_csv players_text year_parser players_types 5)
         \<or> isl (read_csv (blank_filter season_text) year_parser stats_types 1))"
    by (simp add: load_data_def Let_def split: sum.splits)
  with s i show ?thesis by simp
qed

theorem empty_scrape_raises_nothing_witness:
  "scrape_hall_of_fame (Inr [(''Hall of Famers'', ''by year'')]) = Inr []
   \<and> \<not> isl (init plain_read_csv (Inl HTTPError) (Inr [(''Hall of Famers'', ''by year'')])
             example_players_text example_season_text)"
proof -
  have a: "\<not> isl (plain_read_csv example_players_text year_parser players_types 5)"
    by code_simp
  have b: "\<not> isl (plain_read_csv (blank_filter example_season_text) year_parser stats_types 1)"
    by code_simp
  have len: "length [(''Hall of Famers'', ''by year'')] \<le> 1"
    by simp
  note t = empty_scrape_raises_nothing [OF len, where read_csv = plain_read_csv
      and players_text = example_players_text and season_text = example_season_text]
  from t have s: "scrape_hall_of_fame (Inr [(''Hall of Famers'', ''by year'')]) = Inr []"
    by (rule conjunct1)
  from t have "isl (init plain_read_csv (Inl HTTPError) (Inr [(''Hall of Famers'', ''by year'')])
        example_players_text example_season_text)
      = (isl (plain_read_csv example_players_text year_parser players_types 5)
         \<or> isl (plain_read_csv (blank_filter example_season_text) year_parser stats_types 1))"
    by (elim conjE)
  with a b have "\<not> isl (init plain_read_csv (Inl HTTPError)
        (Inr [(''Hall of Famers'', ''by year'')]) example_players_text example_season_text)"
    by simp
  with s show ?thesis by (rule conjI)
qed

end
